theory Spec2Isabelle
  imports
    Main
    "HOL-Library.Word"
    "HOL-Library.Signed_Division"
    "HOL-Library.Product_Lexorder"
begin

section \<open>Machine integers\<close>

text \<open>
  The service works with three Go integer types: \<^verbatim>\<open>int32\<close> (identifiers, and the
  limit and offset of the repository's list operation), \<^verbatim>\<open>int64\<close> (the row count) and
  \<^verbatim>\<open>int\<close> (page, limit, offset, total pages). Go's \<^verbatim>\<open>int\<close> is taken at its usual
  width of 64 bits. Arithmetic on these types wraps around; comparisons and division are
  signed, so words are read with \<^const>\<open>sint\<close> and compared with \<open><s\<close>.
\<close>

type_synonym int32 = "32 word"
type_synonym int64 = "64 word"
type_synonym go_int = "64 word"

text \<open>
  Go's \<^verbatim>\<open>/\<close> on \<^verbatim>\<open>int64\<close>: the quotient truncated towards zero, wrapped to
  64 bits; a zero divisor is a run-time panic, here the value \<open>None\<close>.
\<close>

definition int64_quo :: "int64 \<Rightarrow> int64 \<Rightarrow> int64 option" where
  "int64_quo a b = (if b = 0 then None else Some (word_of_int (sint a sdiv sint b)))"

text \<open>The conversion \<^verbatim>\<open>int32(x)\<close> of an \<^verbatim>\<open>int\<close>: the low 32 bits.\<close>

definition to_int32 :: "go_int \<Rightarrow> int32" where
  "to_int32 x = ucast x"

section \<open>Calendar dates and the standard library's date layout\<close>

text \<open>
  A \<^verbatim>\<open>time.Time\<close> is used by the service only through \<^verbatim>\<open>Year()\<close>, \<^verbatim>\<open>Month()\<close>
  and \<^verbatim>\<open>Day()\<close> and through \<^verbatim>\<open>Format("2006-01-02")\<close>, all of which depend on its
  calendar date alone. It is modelled as that date. Years of a \<^verbatim>\<open>time.Time\<close> stay far
  inside the 64-bit range, so the fields are unbounded integers.
\<close>

record Time =
  Year :: int
  Month :: int
  Day :: int

text \<open>The date of a given year, month and day.\<close>

definition date :: "int \<Rightarrow> int \<Rightarrow> int \<Rightarrow> Time" where
  "date y m d = \<lparr>Year = y, Month = m, Day = d\<rparr>"

text \<open>
  \<^verbatim>\<open>time.Parse("2006-01-02", value)\<close> of Go's standard library, for this one layout:
  a four-digit year, \<^verbatim>\<open>-\<close>, a two-digit month in 1..12, \<^verbatim>\<open>-\<close>, a two-digit day that
  exists in that month, and nothing after it. The helpers follow the library's own
  (\<^verbatim>\<open>isDigit\<close>, \<^verbatim>\<open>atoi\<close>, \<^verbatim>\<open>skip\<close>, \<^verbatim>\<open>getnum\<close> with \<^verbatim>\<open>fixed = true\<close>, \<^verbatim>\<open>isLeap\<close>,
  \<^verbatim>\<open>daysIn\<close>), restricted to the cases this layout reaches. The service only tests the
  returned error against \<^verbatim>\<open>nil\<close>, so a failed parse is \<open>None\<close>.
\<close>

definition is_digit :: "char \<Rightarrow> bool" where
  "is_digit c = (48 \<le> (of_char c :: nat) \<and> (of_char c :: nat) \<le> 57)"

definition digit_val :: "char \<Rightarrow> int" where
  "digit_val c = int (of_char c) - 48"

definition isDigit :: "string \<Rightarrow> nat \<Rightarrow> bool" where
  "isDigit s i = (i < length s \<and> is_digit (s ! i))"

text \<open>\<^verbatim>\<open>atoi\<close> on the year field, whose first byte is a digit: every byte must be one.\<close>

definition atoi :: "string \<Rightarrow> int option" where
  "atoi s = (if list_all is_digit s then Some (foldl (\<lambda>q c. q * 10 + digit_val c) 0 s) else None)"

text \<open>\<^verbatim>\<open>skip\<close> for a layout prefix without spaces: the value must start with the prefix.\<close>

fun skip :: "string \<Rightarrow> string \<Rightarrow> string option" where
  "skip v [] = Some v"
| "skip [] (p # ps) = None"
| "skip (c # cs) (p # ps) = (if c \<noteq> p then None else skip cs ps)"

definition getnum :: "string \<Rightarrow> (int \<times> string) option" where
  "getnum s =
     (if \<not> isDigit s 0 then None
      else if \<not> isDigit s 1 then None
      else Some (digit_val (s ! 0) * 10 + digit_val (s ! 1), drop 2 s))"

definition isLeap :: "int \<Rightarrow> bool" where
  "isLeap year = (year mod 4 = 0 \<and> (year mod 100 \<noteq> 0 \<or> year mod 400 = 0))"

definition daysIn :: "int \<Rightarrow> int \<Rightarrow> int" where
  "daysIn m year =
     (if m = 2 then (if isLeap year then 29 else 28)
      else if m = 4 \<or> m = 6 \<or> m = 9 \<or> m = 11 then 30
      else 31)"

definition time_Parse :: "string \<Rightarrow> Time option" where
  "time_Parse v =
     (if length v < 4 \<or> \<not> isDigit v 0 then None
      else case atoi (take 4 v) of
        None \<Rightarrow> None
      | Some year \<Rightarrow>
         (case skip (drop 4 v) ''-'' of
            None \<Rightarrow> None
          | Some v1 \<Rightarrow>
             (case getnum v1 of
                None \<Rightarrow> None
              | Some (month, v2) \<Rightarrow>
                  if month \<le> 0 \<or> 12 < month then None
                  else
                   (case skip v2 ''-'' of
                      None \<Rightarrow> None
                    | Some v3 \<Rightarrow>
                       (case getnum v3 of
                          None \<Rightarrow> None
                        | Some (day, v4) \<Rightarrow>
                            if v4 \<noteq> [] then None
                            else if day < 1 \<or> daysIn month year < day then None
                            else Some \<lparr>Year = year, Month = month, Day = day\<rparr>)))))"

text \<open>
  \<^verbatim>\<open>t.Format("2006-01-02")\<close>: the library's \<^verbatim>\<open>appendInt\<close> writes a sign for a negative
  number and pads the decimal digits with zeros to the width of the field.
\<close>

fun decimal :: "nat \<Rightarrow> string" where
  "decimal n =
     (if n < 10 then [char_of (48 + n)]
      else decimal (n div 10) @ [char_of (48 + n mod 10)])"

declare decimal.simps [simp del]

definition appendInt :: "int \<Rightarrow> nat \<Rightarrow> string" where
  "appendInt x width =
     (let ds = decimal (nat \<bar>x\<bar>)
      in (if x < 0 then ''-'' else []) @ replicate (width - length ds) (CHR ''0'') @ ds)"

definition time_Format :: "Time \<Rightarrow> string" where
  "time_Format t = appendInt (Year t) 4 @ ''-'' @ appendInt (Month t) 2 @ ''-'' @ appendInt (Day t) 2"

section \<open>Records of the data layer and of the responses\<close>

text \<open>
  Modelled from the spec: the generated type \<^verbatim>\<open>db.User\<close> is not among the sources; the
  queries it is generated for return the columns id, name, dob, created_at and updated_at.
  The service and the handler read its fields \<^verbatim>\<open>ID\<close>, \<^verbatim>\<open>Name\<close> and
  \<^verbatim>\<open>Dob.Time\<close>; the two timestamps the store maintains are never read and are left out.
\<close>

record User =
  ID :: int32
  Name :: string
  Dob :: Time

text \<open>
  \<^verbatim>\<open>models.UserResponse\<close> and \<^verbatim>\<open>models.UsersListResponse\<close>, field by field;
  \<^verbatim>\<open>Age\<close> is a pointer that may be absent.
\<close>

record UserResponse =
  ID :: int32
  Name :: string
  DOB :: string
  Age :: "int option"

record UsersListResponse =
  Data :: "UserResponse list"
  Total :: int64
  Page :: go_int
  Limit :: go_int
  TotalPages :: go_int

section \<open>The repository interface\<close>

text \<open>
  \<^verbatim>\<open>repository.UserRepository\<close>: six operations on a store. The store's state \<open>'s\<close> is
  passed in and returned; \<open>'e\<close> is the type of the errors the store reports. The
  \<^verbatim>\<open>context.Context\<close> argument is handed through unchanged by every caller and is left out.
\<close>

record ('s, 'e) UserRepository =
  Create :: "string \<Rightarrow> string \<Rightarrow> 's \<Rightarrow> ('e + User) \<times> 's"
  GetByID :: "int32 \<Rightarrow> 's \<Rightarrow> ('e + User) \<times> 's"
  List :: "int32 \<Rightarrow> int32 \<Rightarrow> 's \<Rightarrow> ('e + User list) \<times> 's"
  Count :: "'s \<Rightarrow> ('e + int64) \<times> 's"
  Update :: "int32 \<Rightarrow> string \<Rightarrow> string \<Rightarrow> 's \<Rightarrow> ('e + User) \<times> 's"
  Delete :: "int32 \<Rightarrow> 's \<Rightarrow> 'e option \<times> 's"

section \<open>The user service\<close>

text \<open>
  An error returned by the service is either one it made itself with \<^verbatim>\<open>errors.New\<close>
  (the validation errors, with their message), or the repository's error handed on as it
  is, or the run-time panic of an integer division by zero.
\<close>

datatype 'e error = ValidationError string | RepoError 'e | DivideByZero

definition from_repo :: "('e + 'a) \<times> 's \<Rightarrow> ('e error + 'a) \<times> 's" where
  "from_repo r = (case r of (Inl e, s) \<Rightarrow> (Inl (RepoError e), s) | (Inr x, s) \<Rightarrow> (Inr x, s))"

definition CreateUser ::
  "('s, 'e) UserRepository \<Rightarrow> string \<Rightarrow> string \<Rightarrow> 's \<Rightarrow> ('e error + User) \<times> 's" where
  "CreateUser repo name dob s =
     (if name = [] then (Inl (ValidationError ''name cannot be empty''), s)
      else if time_Parse dob = None
        then (Inl (ValidationError ''invalid date format, use YYYY-MM-DD''), s)
      else from_repo (Create repo name dob s))"

definition GetUserByID ::
  "('s, 'e) UserRepository \<Rightarrow> int32 \<Rightarrow> 's \<Rightarrow> ('e error + User) \<times> 's" where
  "GetUserByID repo uid s = from_repo (GetByID repo uid s)"

text \<open>
  \<^verbatim>\<open>CalculateAge\<close> reads the clock with \<^verbatim>\<open>time.Now()\<close>; the date it reads is the
  argument \<open>now\<close>.
\<close>

definition CalculateAge :: "Time \<Rightarrow> Time \<Rightarrow> int" where
  "CalculateAge now dob =
     (let age = Year now - Year dob
      in if Month now < Month dob \<or> (Month now = Month dob \<and> Day now < Day dob)
         then age - 1 else age)"

text \<open>
  \<^verbatim>\<open>ListUsers\<close>. The parameters \<^verbatim>\<open>page\<close> and \<^verbatim>\<open>limit\<close> are reassigned in the
  source; \<open>page0\<close> and \<open>limit0\<close> are the values the caller gave. At 64 bits the
  conversions \<^verbatim>\<open>int64(limit)\<close> and \<^verbatim>\<open>int(...)\<close> change nothing and are not
  written. A slice that stays \<^verbatim>\<open>nil\<close> because there are no users is the empty list.
  Every call of \<^verbatim>\<open>CalculateAge\<close> made for one response is taken to read the same
  date \<open>now\<close>.
\<close>

definition ListUsers ::
  "('s, 'e) UserRepository \<Rightarrow> Time \<Rightarrow> go_int \<Rightarrow> go_int \<Rightarrow> 's
     \<Rightarrow> ('e error + UsersListResponse) \<times> 's" where
  "ListUsers repo now page0 limit0 s =
     (let page = (if page0 <s 1 then 1 else page0);
          limit1 = (if limit0 <s 1 then 10 else limit0);
          limit = (if 100 <s limit1 then 100 else limit1);
          offset = (page - 1) * limit
      in case Count repo s of
           (Inl err, s1) \<Rightarrow> (Inl (RepoError err), s1)
         | (Inr tot, s1) \<Rightarrow>
            (case List repo (to_int32 limit) (to_int32 offset) s1 of
               (Inl err, s2) \<Rightarrow> (Inl (RepoError err), s2)
             | (Inr users, s2) \<Rightarrow>
                (case int64_quo (tot + limit - 1) limit of
                   None \<Rightarrow> (Inl DivideByZero, s2)
                 | Some totalPages \<Rightarrow>
                    (Inr \<lparr>Data = map (\<lambda>user.
                                  \<lparr>UserResponse.ID = User.ID user,
                                   Name = User.Name user,
                                   DOB = time_Format (Dob user),
                                   Age = Some (CalculateAge now (Dob user))\<rparr>) users,
                          Total = tot,
                          Page = page,
                          Limit = limit,
                          TotalPages = totalPages\<rparr>, s2))))"

definition UpdateUser ::
  "('s, 'e) UserRepository \<Rightarrow> int32 \<Rightarrow> string \<Rightarrow> string \<Rightarrow> 's \<Rightarrow> ('e error + User) \<times> 's" where
  "UpdateUser repo uid name dob s =
     (if name = [] then (Inl (ValidationError ''name cannot be empty''), s)
      else if time_Parse dob = None
        then (Inl (ValidationError ''invalid date format, use YYYY-MM-DD''), s)
      else from_repo (Update repo uid name dob s))"

definition DeleteUser ::
  "('s, 'e) UserRepository \<Rightarrow> int32 \<Rightarrow> 's \<Rightarrow> 'e error option \<times> 's" where
  "DeleteUser repo uid s = (case Delete repo uid s of (r, s1) \<Rightarrow> (map_option RepoError r, s1))"

section \<open>The request handler\<close>

text \<open>
  \<^verbatim>\<open>models.CreateUserRequest\<close> and \<^verbatim>\<open>models.UpdateUserRequest\<close>, the bodies of the
  create and update requests.
\<close>

record CreateUserRequest =
  Name :: string
  DOB :: string

record UpdateUserRequest =
  Name :: string
  DOB :: string

text \<open>
  The validator's tags on a string field: \<^verbatim>\<open>required\<close> (not the empty string),
  \<^verbatim>\<open>min=n\<close> and \<^verbatim>\<open>max=n\<close>. The validator library compares the two bounds with the
  number of runes of the string, \<^verbatim>\<open>utf8.RuneCountInString\<close> of Go's standard library:
  an ASCII byte is one rune, a well-formed UTF-8 sequence of two to four bytes is one
  rune, and every byte that starts no well-formed sequence counts as one rune of its own.
  \<open>first\<close> gives, for a leading byte, the length of its sequence and the range of the
  second byte; every later byte of a sequence lies in 0x80..0xBF.
\<close>

definition first :: "nat \<Rightarrow> (nat \<times> nat \<times> nat) option" where
  "first c =
     (if 0xC2 \<le> c \<and> c \<le> 0xDF then Some (2, 0x80, 0xBF)
      else if c = 0xE0 then Some (3, 0xA0, 0xBF)
      else if 0xE1 \<le> c \<and> c \<le> 0xEC then Some (3, 0x80, 0xBF)
      else if c = 0xED then Some (3, 0x80, 0x9F)
      else if 0xEE \<le> c \<and> c \<le> 0xEF then Some (3, 0x80, 0xBF)
      else if c = 0xF0 then Some (4, 0x90, 0xBF)
      else if 0xF1 \<le> c \<and> c \<le> 0xF3 then Some (4, 0x80, 0xBF)
      else if c = 0xF4 then Some (4, 0x80, 0x8F)
      else None)"

definition byte :: "string \<Rightarrow> nat \<Rightarrow> nat" where
  "byte s i = of_char (s ! i)"

text \<open>The number of bytes the first rune of a string that is not empty takes.\<close>

definition rune_size :: "string \<Rightarrow> nat" where
  "rune_size s =
     (if byte s 0 < 0x80 then 1
      else case first (byte s 0) of
        None \<Rightarrow> 1
      | Some (sz, lo, hi) \<Rightarrow>
          if length s < sz then 1
          else if byte s 1 < lo \<or> hi < byte s 1 then 1
          else if sz = 2 then 2
          else if byte s 2 < 0x80 \<or> 0xBF < byte s 2 then 1
          else if sz = 3 then 3
          else if byte s 3 < 0x80 \<or> 0xBF < byte s 3 then 1
          else 4)"

function RuneCountInString :: "string \<Rightarrow> nat" where
  "RuneCountInString s = (if s = [] then 0 else 1 + RuneCountInString (drop (rune_size s) s))"
  by pat_completeness auto
termination
proof (relation "measure length")
  fix s :: string
  assume "s \<noteq> []"
  moreover have "0 < rune_size s"
    by (simp add: rune_size_def split: option.split)
  ultimately show "(drop (rune_size s) s, s) \<in> measure length"
    by simp
qed simp

declare RuneCountInString.simps [simp del]

datatype tag = Required | Min nat | Max nat

fun tag_ok :: "tag \<Rightarrow> string \<Rightarrow> bool" where
  "tag_ok Required v = (v \<noteq> [])"
| "tag_ok (Min n) v = (n \<le> RuneCountInString v)"
| "tag_ok (Max n) v = (RuneCountInString v \<le> n)"

text \<open>
  \<^verbatim>\<open>validate.Struct\<close> on the two request structs: every tag of every field must hold.
  \<^verbatim>\<open>Name\<close> carries \<^verbatim>\<open>required,min=2,max=100\<close> and \<^verbatim>\<open>DOB\<close> carries
  \<^verbatim>\<open>required\<close>, in both structs.
\<close>

definition validate_CreateUserRequest :: "CreateUserRequest \<Rightarrow> bool" where
  "validate_CreateUserRequest req =
     (list_all (\<lambda>t. tag_ok t (CreateUserRequest.Name req)) [Required, Min 2, Max 100]
      \<and> list_all (\<lambda>t. tag_ok t (CreateUserRequest.DOB req)) [Required])"

definition validate_UpdateUserRequest :: "UpdateUserRequest \<Rightarrow> bool" where
  "validate_UpdateUserRequest req =
     (list_all (\<lambda>t. tag_ok t (UpdateUserRequest.Name req)) [Required, Min 2, Max 100]
      \<and> list_all (\<lambda>t. tag_ok t (UpdateUserRequest.DOB req)) [Required])"

text \<open>
  What a handler answers: a status code and a JSON body. The body is an error message
  of the handler's own, the report of a failed validation (whose detail text is the
  validator library's and is not modelled), the message of an error of the service
  (the error stands for its message), or a user.
\<close>

datatype 'e json =
    ErrorJSON string
  | ValidationFailedJSON
  | ServiceErrorJSON "'e error"
  | UserJSON UserResponse

record 'e Response =
  StatusCode :: nat
  JSON :: "'e json"

text \<open>
  \<^verbatim>\<open>UserHandler.CreateUser\<close> and \<^verbatim>\<open>UserHandler.UpdateUser\<close>, with the service built on
  the repository as the server wires it. What the web framework and \<^verbatim>\<open>strconv.Atoi\<close>
  make of the raw request are arguments: the parsed body (\<open>None\<close> when
  \<^verbatim>\<open>BodyParser\<close> fails) and the parsed identifier (\<open>None\<close> when \<^verbatim>\<open>Atoi\<close> fails).
  Writing to the log is left out.
\<close>

definition UserHandler_CreateUser ::
  "('s, 'e) UserRepository \<Rightarrow> CreateUserRequest option \<Rightarrow> 's \<Rightarrow> 'e Response \<times> 's" where
  "UserHandler_CreateUser repo body s =
     (case body of
        None \<Rightarrow> (\<lparr>StatusCode = 400, JSON = ErrorJSON ''Invalid request body''\<rparr>, s)
      | Some req \<Rightarrow>
          if \<not> validate_CreateUserRequest req
          then (\<lparr>StatusCode = 400, JSON = ValidationFailedJSON\<rparr>, s)
          else
           (case CreateUser repo (CreateUserRequest.Name req) (CreateUserRequest.DOB req) s of
              (Inl err, s1) \<Rightarrow> (\<lparr>StatusCode = 400, JSON = ServiceErrorJSON err\<rparr>, s1)
            | (Inr user, s1) \<Rightarrow>
                (\<lparr>StatusCode = 201,
                  JSON = UserJSON \<lparr>UserResponse.ID = User.ID user,
                                   Name = User.Name user,
                                   DOB = time_Format (Dob user),
                                   Age = None\<rparr>\<rparr>, s1)))"

definition UserHandler_UpdateUser ::
  "('s, 'e) UserRepository \<Rightarrow> go_int option \<Rightarrow> UpdateUserRequest option \<Rightarrow> 's
     \<Rightarrow> 'e Response \<times> 's" where
  "UserHandler_UpdateUser repo parsed_id body s =
     (case parsed_id of
        None \<Rightarrow> (\<lparr>StatusCode = 400, JSON = ErrorJSON ''Invalid user ID''\<rparr>, s)
      | Some uid \<Rightarrow>
         (case body of
            None \<Rightarrow> (\<lparr>StatusCode = 400, JSON = ErrorJSON ''Invalid request body''\<rparr>, s)
          | Some req \<Rightarrow>
              if \<not> validate_UpdateUserRequest req
              then (\<lparr>StatusCode = 400, JSON = ValidationFailedJSON\<rparr>, s)
              else
               (case UpdateUser repo (to_int32 uid) (UpdateUserRequest.Name req)
                       (UpdateUserRequest.DOB req) s of
                  (Inl err, s1) \<Rightarrow> (\<lparr>StatusCode = 400, JSON = ServiceErrorJSON err\<rparr>, s1)
                | (Inr user, s1) \<Rightarrow>
                    (\<lparr>StatusCode = 200,
                      JSON = UserJSON \<lparr>UserResponse.ID = User.ID user,
                                       Name = User.Name user,
                                       DOB = time_Format (Dob user),
                                       Age = None\<rparr>\<rparr>, s1))))"

section \<open>Test doubles for the repository\<close>

text \<open>
  \<^verbatim>\<open>parsePGDate\<close> of the repository's implementation drops the error of
  \<^verbatim>\<open>time.Parse\<close>, which on failure returns the zero time, 1 January of year 1.
\<close>

definition parsePGDate :: "string \<Rightarrow> Time" where
  "parsePGDate d =
     (case time_Parse d of None \<Rightarrow> \<lparr>Year = 1, Month = 1, Day = 1\<rparr> | Some t \<Rightarrow> t)"

text \<open>
  Modelled from the spec: the errors of the storage gateway. The Go functions generated
  from the SQL queries, which produce them, are not among the sources; the specification
  names a missing row (\<open>NotFoundError\<close>) and any other failure of the store
  (\<open>StoreError\<close>).
\<close>

datatype gateway_error = NotFoundError | StoreError

text \<open>
  Modelled from the spec: a substitute repository with fixed answers, as the
  specification's design notes describe and the service's own test uses, in place of the
  Go functions generated from the SQL queries, which are not among the sources.
  \<open>Count\<close> answers \<open>tot\<close>,
  \<open>List\<close> answers \<open>users\<close>, \<open>Create\<close> answers the new user under the identifier 1,
  and \<open>GetByID\<close>, \<open>Update\<close> and \<open>Delete\<close> answer \<open>NotFoundError\<close> for an identifier
  that no canned user has, as the gateway's contract says. Its store has no state.
\<close>

definition canned :: "int64 \<Rightarrow> User list \<Rightarrow> (unit, gateway_error) UserRepository" where
  "canned tot users =
     \<lparr>Create = (\<lambda>name dob s.
        (Inr \<lparr>User.ID = 1, Name = name, Dob = parsePGDate dob\<rparr>, s)),
      GetByID = (\<lambda>uid s.
        (case find (\<lambda>u. User.ID u = uid) users of
           None \<Rightarrow> Inl NotFoundError
         | Some u \<Rightarrow> Inr u, s)),
      List = (\<lambda>limit offset s. (Inr users, s)),
      Count = (\<lambda>s. (Inr tot, s)),
      Update = (\<lambda>uid name dob s.
        (if list_ex (\<lambda>u. User.ID u = uid) users
         then Inr \<lparr>User.ID = uid, Name = name, Dob = parsePGDate dob\<rparr>
         else Inl NotFoundError, s)),
      Delete = (\<lambda>uid s.
        (if list_ex (\<lambda>u. User.ID u = uid) users then None else Some NotFoundError, s))\<rparr>"

text \<open>
  \<open>traced repo\<close> is \<open>repo\<close> with a journal: it answers as \<open>repo\<close> does and appends
  every call it receives, with its arguments, to a list kept beside the store's state.
  What the service hands to the repository, and whether it calls it at all, is read off
  the journal.
\<close>

datatype call =
    CreateCall string string
  | GetByIDCall int32
  | ListCall int32 int32
  | CountCall
  | UpdateCall int32 string string
  | DeleteCall int32

definition journal :: "call \<Rightarrow> 'r \<times> 's \<Rightarrow> call list \<Rightarrow> 'r \<times> 's \<times> call list" where
  "journal c r log = (fst r, snd r, log @ [c])"

definition traced :: "('s, 'e) UserRepository \<Rightarrow> ('s \<times> call list, 'e) UserRepository" where
  "traced repo =
     \<lparr>Create = (\<lambda>name dob sl.
        journal (CreateCall name dob) (Create repo name dob (fst sl)) (snd sl)),
      GetByID = (\<lambda>uid sl. journal (GetByIDCall uid) (GetByID repo uid (fst sl)) (snd sl)),
      List = (\<lambda>limit offset sl.
        journal (ListCall limit offset) (List repo limit offset (fst sl)) (snd sl)),
      Count = (\<lambda>sl. journal CountCall (Count repo (fst sl)) (snd sl)),
      Update = (\<lambda>uid name dob sl.
        journal (UpdateCall uid name dob) (Update repo uid name dob (fst sl)) (snd sl)),
      Delete = (\<lambda>uid sl. journal (DeleteCall uid) (Delete repo uid (fst sl)) (snd sl))\<rparr>"

section \<open>The specification's pagination policy\<close>

text \<open>
  The normalization as the specification words it, on unbounded integers: a page below 1
  becomes 1; a limit below 1 becomes 10, a limit above 100 becomes 100.
\<close>

definition spec_page :: "int \<Rightarrow> int" where
  "spec_page page = (if page < 1 then 1 else page)"

definition spec_limit :: "int \<Rightarrow> int" where
  "spec_limit limit = (if limit < 1 then 10 else if limit > 100 then 100 else limit)"

section \<open>Age calculation\<close>

text \<open>
  C1. At the current date \<open>now\<close>, \<open>CalculateAge\<close> returns the difference of the years,
  less one exactly when the current (month, day) comes before the birth (month, day) in
  the lexicographic order of pairs; at 2024-06-15 the birth dates 2000-06-15, 2000-06-16,
  2000-06-14 and 2024-06-15 give 24, 23, 24 and 0.
\<close>

theorem CalculateAge_lexicographic:
  "CalculateAge now dob =
     Year now - Year dob - (if (Month now, Day now) < (Month dob, Day dob) then 1 else 0)
   \<and> CalculateAge (date 2024 6 15) (date 2000 6 15) = 24
   \<and> CalculateAge (date 2024 6 15) (date 2000 6 16) = 23
   \<and> CalculateAge (date 2024 6 15) (date 2000 6 14) = 24
   \<and> CalculateAge (date 2024 6 15) (date 2024 6 15) = 0"
  by (auto simp: CalculateAge_def date_def Let_def less_prod_def)

section \<open>Integer conversions and the steps of \<open>ListUsers\<close>\<close>

lemmas run_defs =
  ListUsers_def CreateUser_def UpdateUser_def from_repo_def traced_def canned_def journal_def
  to_int32_def int64_quo_def Let_def word_sless_alt signed_divide_int_def date_def
  spec_page_def spec_limit_def

lemma sint_to_int32: "sint (to_int32 w) = signed_take_bit 31 (sint w)"
proof -
  have "sint (ucast w :: 32 word) = signed_take_bit 31 (uint w)"
    by (simp add: signed_ucast_eq)
  also have "\<dots> = signed_take_bit 31 (signed_take_bit 63 (uint w))"
    by (simp add: signed_take_bit_signed_take_bit)
  also have "signed_take_bit 63 (uint w) = sint w"
    by (simp add: sint_uint)
  finally show ?thesis
    by (simp add: to_int32_def)
qed

lemma signed_take_bit_31_wrap: "signed_take_bit 31 (k::int) = (k + 2 ^ 31) mod 2 ^ 32 - 2 ^ 31"
  by (simp add: signed_take_bit_eq_take_bit_shift take_bit_eq_mod)

lemma sint_page_norm: "sint (if page <s 1 then 1 else page :: go_int) = spec_page (sint page)"
  by (simp add: spec_page_def word_sless_alt)

lemma sint_limit_norm:
  "sint (if 100 <s (if limit <s 1 then 10 else limit) then 100
         else (if limit <s 1 then 10 else limit :: go_int))
     = spec_limit (sint limit)"
  by (simp add: spec_limit_def word_sless_alt)

lemma spec_limit_range: "1 \<le> spec_limit l \<and> spec_limit l \<le> 100"
  by (simp add: spec_limit_def)

lemma spec_page_range: "1 \<le> spec_page p"
  by (simp add: spec_page_def)

lemma sint_offset32:
  "sint (to_int32 ((p - 1) * l)) = signed_take_bit 31 ((sint p - 1) * sint l)"
proof -
  have "sint (to_int32 ((p - 1) * l)) = signed_take_bit 31 (sint ((p - 1) * l))"
    by (rule sint_to_int32)
  also have "\<dots> = signed_take_bit 31 (sint (p - 1) * sint l)"
    by (simp add: sint_word_ariths signed_take_bit_signed_take_bit)
  also have "\<dots> = signed_take_bit 31 (signed_take_bit 31 (sint (p - 1)) * signed_take_bit 31 (sint l))"
    by (simp only: signed_take_bit_mult)
  also have "signed_take_bit 31 (sint (p - 1)) = signed_take_bit 31 (sint p - 1)"
    by (simp add: sint_word_ariths signed_take_bit_signed_take_bit)
  finally show ?thesis
    by (simp only: signed_take_bit_mult)
qed

lemma ListUsers_Count_error:
  assumes "Count repo s = (Inl e, s1)"
  shows "ListUsers repo now page limit s = (Inl (RepoError e), s1)"
  using assms by (simp add: ListUsers_def Let_def)

lemma ListUsers_steps:
  assumes P: "P = (if page <s 1 then 1 else page)"
      and L: "L = (if 100 <s (if limit <s 1 then 10 else limit) then 100
                   else (if limit <s 1 then 10 else limit))"
      and c: "Count repo s = (Inr tot, s1)"
      and l: "List repo (to_int32 L) (to_int32 ((P - 1) * L)) s1 = (lr, s2)"
  shows "ListUsers repo now page limit s =
          (case lr of
             Inl err \<Rightarrow> (Inl (RepoError err), s2)
           | Inr users \<Rightarrow>
               (Inr \<lparr>Data = map (\<lambda>user.
                               \<lparr>UserResponse.ID = User.ID user,
                                Name = User.Name user,
                                DOB = time_Format (Dob user),
                                Age = Some (CalculateAge now (Dob user))\<rparr>) users,
                     Total = tot, Page = P, Limit = L,
                     TotalPages = word_of_int (sint (tot + L - 1) sdiv sint L)\<rparr>, s2))"
proof -
  have "sint L = spec_limit (sint limit)"
    unfolding L by (rule sint_limit_norm)
  with spec_limit_range [of "sint limit"] have "sint L \<noteq> 0"
    by simp
  then have "L \<noteq> 0"
    by auto
  then have q: "int64_quo (tot + L - 1) L = Some (word_of_int (sint (tot + L - 1) sdiv sint L))"
    by (simp add: int64_quo_def)
  show ?thesis
    unfolding ListUsers_def Let_def P [symmetric] L [symmetric]
    by (simp only: c l q prod.case sum.case option.case)
qed

lemma ListUsers_Inr:
  assumes "ListUsers repo now page limit s = (Inr r, s')"
  shows "sint (Page r) = spec_page (sint page)
       \<and> sint (Limit r) = spec_limit (sint limit)
       \<and> TotalPages r = word_of_int (sint (Total r + Limit r - 1) sdiv sint (Limit r))"
proof -
  define P :: go_int where "P = (if page <s 1 then 1 else page)"
  define L :: go_int where
    "L = (if 100 <s (if limit <s 1 then 10 else limit) then 100
          else (if limit <s 1 then 10 else limit))"
  obtain cr s1 where c: "Count repo s = (cr, s1)"
    by (cases "Count repo s")
  show ?thesis
  proof (cases cr)
    case (Inl e)
    with c assms show ?thesis
      by (simp add: ListUsers_Count_error)
  next
    case (Inr tot)
    obtain lr s2 where l: "List repo (to_int32 L) (to_int32 ((P - 1) * L)) s1 = (lr, s2)"
      by (cases "List repo (to_int32 L) (to_int32 ((P - 1) * L)) s1")
    from ListUsers_steps [OF P_def L_def c [unfolded Inr] l, of now] assms
    have "Page r = P \<and> Limit r = L
          \<and> TotalPages r = word_of_int (sint (Total r + Limit r - 1) sdiv sint (Limit r))"
      by (cases lr) auto
    then show ?thesis
      by (simp add: P_def L_def sint_page_norm sint_limit_norm)
  qed
qed

lemma ListUsers_never_divides_by_zero:
  "fst (ListUsers repo now page limit s) \<noteq> Inl DivideByZero"
proof -
  define P :: go_int where "P = (if page <s 1 then 1 else page)"
  define L :: go_int where
    "L = (if 100 <s (if limit <s 1 then 10 else limit) then 100
          else (if limit <s 1 then 10 else limit))"
  obtain cr s1 where c: "Count repo s = (cr, s1)"
    by (cases "Count repo s")
  show ?thesis
  proof (cases cr)
    case (Inl e)
    with c show ?thesis
      by (simp add: ListUsers_Count_error)
  next
    case (Inr tot)
    obtain lr s2 where l: "List repo (to_int32 L) (to_int32 ((P - 1) * L)) s1 = (lr, s2)"
      by (cases "List repo (to_int32 L) (to_int32 ((P - 1) * L)) s1")
    from ListUsers_steps [OF P_def L_def c [unfolded Inr] l, of now]
    show ?thesis
      by (cases lr) auto
  qed
qed

lemma ListUsers_journal:
  assumes "Count repo s = (Inr tot, s1)"
  shows "\<exists>lim off.
           snd (snd (ListUsers (traced repo) now page limit (s, log)))
             = log @ [CountCall, ListCall lim off]
         \<and> sint lim = spec_limit (sint limit)
         \<and> sint off = signed_take_bit 31 ((spec_page (sint page) - 1) * spec_limit (sint limit))"
proof -
  define P :: go_int where "P = (if page <s 1 then 1 else page)"
  define L :: go_int where
    "L = (if 100 <s (if limit <s 1 then 10 else limit) then 100
          else (if limit <s 1 then 10 else limit))"
  have sP: "sint P = spec_page (sint page)"
    unfolding P_def by (rule sint_page_norm)
  have sL: "sint L = spec_limit (sint limit)"
    unfolding L_def by (rule sint_limit_norm)
  have c: "Count (traced repo) (s, log) = (Inr tot, s1, log @ [CountCall])"
    using assms by (simp add: traced_def journal_def)
  obtain lr s2 where "List repo (to_int32 L) (to_int32 ((P - 1) * L)) s1 = (lr, s2)"
    by (cases "List repo (to_int32 L) (to_int32 ((P - 1) * L)) s1")
  then have l: "List (traced repo) (to_int32 L) (to_int32 ((P - 1) * L)) (s1, log @ [CountCall])
                  = (lr, s2, log @ [CountCall, ListCall (to_int32 L) (to_int32 ((P - 1) * L))])"
    by (simp add: traced_def journal_def)
  from ListUsers_steps [OF P_def L_def c l, of now]
  have j: "snd (snd (ListUsers (traced repo) now page limit (s, log)))
             = log @ [CountCall, ListCall (to_int32 L) (to_int32 ((P - 1) * L))]"
    by (cases lr) simp_all
  have "sint (to_int32 L) = signed_take_bit 31 (sint L)"
    by (rule sint_to_int32)
  also have "\<dots> = sint L"
    using spec_limit_range [of "sint limit"]
    by (intro signed_take_bit_int_eq_self) (simp_all add: sL)
  finally have l: "sint (to_int32 L) = spec_limit (sint limit)"
    by (simp add: sL)
  have o: "sint (to_int32 ((P - 1) * L))
             = signed_take_bit 31 ((spec_page (sint page) - 1) * spec_limit (sint limit))"
    by (simp add: sint_offset32 sP sL)
  from j l o show ?thesis by blast
qed

lemma int_sdiv_nonneg: "0 \<le> k \<Longrightarrow> 0 < l \<Longrightarrow> (k::int) sdiv l = k div l"
  by (cases "k = 0") (simp_all add: signed_divide_int_def)

lemma sint_quotient:
  fixes a b :: int64
  assumes "0 \<le> sint a" and "0 < sint b"
  shows "sint (word_of_int (sint a sdiv sint b) :: int64) = sint a div sint b"
proof -
  have "sint a div sint b \<le> sint a div 1"
    using assms by (intro zdiv_mono2) simp_all
  moreover have "sint a < 2 ^ 63"
    using sint_less [of a] by simp
  moreover have "0 \<le> sint a div sint b"
    using assms by (simp add: pos_imp_zdiv_nonneg_iff)
  ultimately have "signed_take_bit 63 (sint a div sint b) = sint a div sint b"
    by (intro signed_take_bit_int_eq_self) simp_all
  then show ?thesis
    using assms by (simp add: int_sdiv_nonneg sint_sbintrunc')
qed

lemma sint_total_plus:
  fixes tot L :: int64
  assumes "0 \<le> sint tot" and "1 \<le> sint L" and "sint tot + sint L - 1 < 2 ^ 63"
  shows "sint (tot + L - 1) = sint tot + sint L - 1"
proof -
  have "tot + L - 1 = word_of_int (sint tot + sint L - 1)"
    by simp
  then have "sint (tot + L - 1) = signed_take_bit 63 (sint tot + sint L - 1)"
    by (simp only: sint_sbintrunc') simp
  also have "\<dots> = sint tot + sint L - 1"
    using assms by (intro signed_take_bit_int_eq_self) simp_all
  finally show ?thesis .
qed

section \<open>Pagination\<close>

lemma word_of_spec_page:
  "(word_of_int (spec_page (sint page)) :: go_int) = (if page <s 1 then 1 else page)"
  by (simp add: spec_page_def word_sless_alt)

lemma word_of_spec_limit:
  "(word_of_int (spec_limit (sint limit)) :: go_int)
     = (if 100 <s (if limit <s 1 then 10 else limit) then 100
        else (if limit <s 1 then 10 else limit))"
  by (simp add: spec_limit_def word_sless_alt)

lemma ListUsers_idem:
  "ListUsers repo now page limit s
     = ListUsers repo now (word_of_int (spec_page (sint page)))
         (word_of_int (spec_limit (sint limit))) s"
proof -
  define P :: go_int where "P = (if page <s 1 then 1 else page)"
  define L :: go_int where
    "L = (if 100 <s (if limit <s 1 then 10 else limit) then 100
          else (if limit <s 1 then 10 else limit))"
  have sP: "sint P = spec_page (sint page)"
    unfolding P_def by (rule sint_page_norm)
  have sL: "sint L = spec_limit (sint limit)"
    unfolding L_def by (rule sint_limit_norm)
  have P': "P = (if P <s 1 then 1 else P)"
    using spec_page_range [of "sint page"] by (simp add: word_sless_alt sP)
  have L': "L = (if 100 <s (if L <s 1 then 10 else L) then 100 else (if L <s 1 then 10 else L))"
    using spec_limit_range [of "sint limit"] by (simp add: word_sless_alt sL)
  have arg: "word_of_int (spec_page (sint page)) = P" "word_of_int (spec_limit (sint limit)) = L"
    by (simp_all add: word_of_spec_page word_of_spec_limit P_def L_def)
  obtain cr s1 where c: "Count repo s = (cr, s1)"
    by (cases "Count repo s")
  show ?thesis
  proof (cases cr)
    case (Inl e)
    with c show ?thesis
      by (simp add: ListUsers_Count_error)
  next
    case (Inr tot)
    obtain lr s2 where l: "List repo (to_int32 L) (to_int32 ((P - 1) * L)) s1 = (lr, s2)"
      by (cases "List repo (to_int32 L) (to_int32 ((P - 1) * L)) s1")
    from ListUsers_steps [OF P_def L_def c [unfolded Inr] l, of now]
         ListUsers_steps [OF P' L' c [unfolded Inr] l, of now]
    show ?thesis
      by (simp only: arg)
  qed
qed

text \<open>
  C2 (amended). The repository's list operation receives the limit normalized as the
  specification says (below 1 becomes 10, above 100 becomes 100), and, whenever the
  product (page - 1) * limit of the normalized values is below \<open>2 ^ 31\<close>, exactly that
  product as its offset. A call with any page and limit is the call with the normalized
  page and limit; so \<open>ListUsers 0 0\<close> is \<open>ListUsers 1 10\<close>, and \<open>ListUsers 1 1000\<close> is
  \<open>ListUsers 1 100\<close>.
\<close>

theorem ListUsers_normalization:
  "(Count repo s = (Inr tot, s1) \<longrightarrow>
      (\<exists>lim off.
          snd (snd (ListUsers (traced repo) now page limit (s, log)))
            = log @ [CountCall, ListCall lim off]
        \<and> sint lim = spec_limit (sint limit)
        \<and> ((spec_page (sint page) - 1) * spec_limit (sint limit) < 2 ^ 31
             \<longrightarrow> sint off = (spec_page (sint page) - 1) * spec_limit (sint limit))))
   \<and> ListUsers repo now page limit s
       = ListUsers repo now (word_of_int (spec_page (sint page)))
           (word_of_int (spec_limit (sint limit))) s
   \<and> ListUsers repo now 0 0 s = ListUsers repo now 1 10 s
   \<and> ListUsers repo now 1 1000 s = ListUsers repo now 1 100 s"
proof (intro conjI impI)
  assume c: "Count repo s = (Inr tot, s1)"
  let ?x = "(spec_page (sint page) - 1) * spec_limit (sint limit)"
  from ListUsers_journal [OF c, of now page limit log]
  obtain lim off where j:
    "snd (snd (ListUsers (traced repo) now page limit (s, log))) = log @ [CountCall, ListCall lim off]"
    "sint lim = spec_limit (sint limit)"
    "sint off = signed_take_bit 31 ?x"
    by blast
  have "0 \<le> ?x"
    using spec_page_range [of "sint page"] spec_limit_range [of "sint limit"] by simp
  then have "?x < 2 ^ 31 \<longrightarrow> signed_take_bit 31 ?x = ?x"
    by (auto intro!: signed_take_bit_int_eq_self)
  with j show "\<exists>lim off.
          snd (snd (ListUsers (traced repo) now page limit (s, log)))
            = log @ [CountCall, ListCall lim off]
        \<and> sint lim = spec_limit (sint limit)
        \<and> (?x < 2 ^ 31 \<longrightarrow> sint off = ?x)"
    by auto
next
  show "ListUsers repo now page limit s
       = ListUsers repo now (word_of_int (spec_page (sint page)))
           (word_of_int (spec_limit (sint limit))) s"
    by (rule ListUsers_idem)
next
  show "ListUsers repo now 0 0 s = ListUsers repo now 1 10 s"
    using ListUsers_idem [of repo now 0 0 s] by (simp add: spec_page_def spec_limit_def)
next
  show "ListUsers repo now 1 1000 s = ListUsers repo now 1 100 s"
    using ListUsers_idem [of repo now 1 1000 s] by (simp add: spec_page_def spec_limit_def)
qed

text \<open>Page 3 with limit 0 of a store of 25 rows: the list operation receives limit 10, offset 20.\<close>

theorem ListUsers_normalization_witness:
  "\<exists>lim off.
      snd (snd (ListUsers (traced (canned 25 [])) (date 2024 6 15) 3 0 ((), [])))
        = [CountCall, ListCall lim off]
    \<and> sint lim = 10 \<and> sint off = 20"
  using ListUsers_normalization
    [where repo = "canned 25 []" and s = "()" and tot = 25 and ?s1.0 = "()"
       and now = "date 2024 6 15" and page = 3 and limit = 0 and log = "[]"]
  by (simp add: canned_def spec_page_def spec_limit_def)

text \<open>
  C2 as stated fails for a large page: at page 42949673 and limit 100 the product is
  4294967200, and the list operation receives the offset -96.
\<close>

theorem ListUsers_exact_offset_counterexample:
  "snd (snd (ListUsers (traced (canned 0 [])) (date 2024 6 15) 42949673 100 ((), [])))
     = [CountCall, ListCall 100 (- 96)]
   \<and> sint (- 96 :: int32) = - 96
   \<and> (spec_page 42949673 - 1) * spec_limit 100 = 4294967200"
  by (simp add: run_defs)

text \<open>
  C10. The offset the list operation receives is the product (page - 1) * limit of the
  normalized values reduced to a signed 32-bit integer, that is, wrapped modulo
  \<open>2 ^ 32\<close> into the range from \<open>- 2 ^ 31\<close>; it is the product itself when the product is
  below \<open>2 ^ 31\<close>. Nothing stops a larger product: at page 21474838 and limit 100 the list
  operation is called with the negative offset -2147483596.
\<close>

theorem ListUsers_offset_truncated:
  "(Count repo s = (Inr tot, s1) \<longrightarrow>
      (\<exists>lim off.
          snd (snd (ListUsers (traced repo) now page limit (s, log)))
            = log @ [CountCall, ListCall lim off]
        \<and> sint off
            = ((spec_page (sint page) - 1) * spec_limit (sint limit) + 2 ^ 31) mod 2 ^ 32 - 2 ^ 31
        \<and> ((spec_page (sint page) - 1) * spec_limit (sint limit) < 2 ^ 31
             \<longrightarrow> sint off = (spec_page (sint page) - 1) * spec_limit (sint limit))))
   \<and> snd (snd (ListUsers (traced (canned 0 [])) (date 2024 6 15) 21474838 100 ((), [])))
       = [CountCall, ListCall 100 (- 2147483596)]
   \<and> sint (- 2147483596 :: int32) < 0"
proof (intro conjI impI)
  assume c: "Count repo s = (Inr tot, s1)"
  let ?x = "(spec_page (sint page) - 1) * spec_limit (sint limit)"
  from ListUsers_journal [OF c, of now page limit log]
  obtain lim off where j:
    "snd (snd (ListUsers (traced repo) now page limit (s, log))) = log @ [CountCall, ListCall lim off]"
    "sint off = signed_take_bit 31 ?x"
    by blast
  have "0 \<le> ?x"
    using spec_page_range [of "sint page"] spec_limit_range [of "sint limit"] by simp
  then have "?x < 2 ^ 31 \<longrightarrow> signed_take_bit 31 ?x = ?x"
    by (auto intro!: signed_take_bit_int_eq_self)
  with j show "\<exists>lim off.
          snd (snd (ListUsers (traced repo) now page limit (s, log)))
            = log @ [CountCall, ListCall lim off]
        \<and> sint off = (?x + 2 ^ 31) mod 2 ^ 32 - 2 ^ 31
        \<and> (?x < 2 ^ 31 \<longrightarrow> sint off = ?x)"
    by (auto simp: signed_take_bit_31_wrap)
next
  show "snd (snd (ListUsers (traced (canned 0 [])) (date 2024 6 15) 21474838 100 ((), [])))
       = [CountCall, ListCall 100 (- 2147483596)]"
    by (simp add: run_defs)
next
  show "sint (- 2147483596 :: int32) < 0"
    by simp
qed

text \<open>Page 3 with limit 10: the list operation receives the offset 20.\<close>

theorem ListUsers_offset_truncated_witness:
  "\<exists>lim off.
      snd (snd (ListUsers (traced (canned 25 [])) (date 2024 6 15) 3 10 ((), [])))
        = [CountCall, ListCall lim off]
    \<and> sint off = 20"
  using ListUsers_offset_truncated
    [where repo = "canned 25 []" and s = "()" and tot = 25 and ?s1.0 = "()"
       and now = "date 2024 6 15" and page = 3 and limit = 10 and log = "[]"]
  by (simp add: canned_def spec_page_def spec_limit_def)

text \<open>
  C3 (amended). When \<open>ListUsers\<close> succeeds with a total that is not negative and for
  which total + limit - 1 stays below \<open>2 ^ 63\<close>, the total pages are the ceiling division
  (total + limit - 1) div limit by the normalized limit: the least number of pages of
  that size that hold all rows. A total of 25 with limit 10 gives 3 pages, a total of 20
  gives 2.
\<close>

theorem ListUsers_totalPages:
  assumes "ListUsers repo now page limit s = (Inr r, s')"
      and "0 \<le> sint (Total r)"
      and "sint (Total r) + spec_limit (sint limit) - 1 < 2 ^ 63"
  shows "sint (TotalPages r)
           = (sint (Total r) + spec_limit (sint limit) - 1) div spec_limit (sint limit)
       \<and> sint (Total r) \<le> sint (TotalPages r) * spec_limit (sint limit)
       \<and> sint (TotalPages r) * spec_limit (sint limit) < sint (Total r) + spec_limit (sint limit)
       \<and> fst (ListUsers (canned 25 []) (date 2024 6 15) 1 10 ())
           = Inr \<lparr>Data = [], Total = 25, Page = 1, Limit = 10, TotalPages = 3\<rparr>
       \<and> fst (ListUsers (canned 20 []) (date 2024 6 15) 1 10 ())
           = Inr \<lparr>Data = [], Total = 20, Page = 1, Limit = 10, TotalPages = 2\<rparr>"
proof -
  define t l where "t = sint (Total r)" and "l = spec_limit (sint limit)"
  from ListUsers_Inr [OF assms(1)]
  have L: "sint (Limit r) = l"
    and q: "TotalPages r = word_of_int (sint (Total r + Limit r - 1) sdiv sint (Limit r))"
    by (simp_all add: l_def)
  have lpos: "1 \<le> l"
    using spec_limit_range [of "sint limit"] by (simp add: l_def)
  have sum: "sint (Total r + Limit r - 1) = t + l - 1"
    using assms(2,3) lpos sint_total_plus [of "Total r" "Limit r"]
    by (simp add: L t_def l_def)
  have "sint (TotalPages r) = sint (Total r + Limit r - 1) div sint (Limit r)"
    unfolding q using assms(2) lpos
    by (intro sint_quotient) (simp_all add: sum L t_def)
  then have tp: "sint (TotalPages r) = (t + l - 1) div l"
    by (simp add: sum L)
  have "(t + l - 1) div l * l + (t + l - 1) mod l = t + l - 1"
    by simp
  moreover have "0 \<le> (t + l - 1) mod l" "(t + l - 1) mod l < l"
    using lpos by simp_all
  ultimately have "t \<le> (t + l - 1) div l * l \<and> (t + l - 1) div l * l < t + l"
    by linarith
  with tp have "sint (TotalPages r) = (t + l - 1) div l
       \<and> t \<le> sint (TotalPages r) * l \<and> sint (TotalPages r) * l < t + l"
    by simp
  moreover have "fst (ListUsers (canned 25 []) (date 2024 6 15) 1 10 ())
           = Inr \<lparr>Data = [], Total = 25, Page = 1, Limit = 10, TotalPages = 3\<rparr>"
    by (simp add: run_defs)
  moreover have "fst (ListUsers (canned 20 []) (date 2024 6 15) 1 10 ())
           = Inr \<lparr>Data = [], Total = 20, Page = 1, Limit = 10, TotalPages = 2\<rparr>"
    by (simp add: run_defs)
  ultimately show ?thesis
    unfolding t_def l_def by blast
qed

text \<open>A store of 101 rows listed with the default limit: 11 pages.\<close>

theorem ListUsers_totalPages_witness:
  "ListUsers (canned 101 []) (date 2024 6 15) 2 0 ()
     = (Inr \<lparr>Data = [], Total = 101, Page = 2, Limit = 10, TotalPages = 11\<rparr>, ())
   \<and> sint (11 :: go_int) = (101 + 10 - 1) div 10"
proof -
  have run: "ListUsers (canned 101 []) (date 2024 6 15) 2 0 ()
     = (Inr \<lparr>Data = [], Total = 101, Page = 2, Limit = 10, TotalPages = 11\<rparr>, ())"
    by (simp add: run_defs)
  from ListUsers_totalPages [OF run] show ?thesis
    by (simp add: run spec_limit_def)
qed

text \<open>
  C3 as stated fails for a total near the top of the 64-bit range: with the total
  \<open>2 ^ 63 - 1\<close> and limit 10 the sum wraps around, and the total pages come out negative.
\<close>

theorem ListUsers_totalPages_overflow_counterexample:
  "fst (ListUsers (canned 9223372036854775807 []) (date 2024 6 15) 1 10 ())
     = Inr \<lparr>Data = [], Total = 9223372036854775807, Page = 1, Limit = 10,
            TotalPages = - 922337203685477580\<rparr>
   \<and> sint (9223372036854775807 :: int64) = 9223372036854775807
   \<and> sint (- 922337203685477580 :: go_int) = - 922337203685477580
   \<and> (9223372036854775807 + spec_limit 10 - 1) div spec_limit 10 = (922337203685477581 :: int)"
  by (simp add: run_defs)

text \<open>
  C9. On success the response carries the normalized values: its page is the larger of
  the given page and 1; its limit is 10 for a given limit below 1 and otherwise the
  smaller of the given limit and 100. \<open>ListUsers 0 1000\<close> reports page 1 and limit 100.
\<close>

theorem ListUsers_reports_normalized:
  assumes "ListUsers repo now page limit s = (Inr r, s')"
  shows "sint (Page r) = max (sint page) 1
       \<and> sint (Limit r) = (if sint limit < 1 then 10 else min (sint limit) 100)
       \<and> fst (ListUsers (canned 0 []) (date 2024 6 15) 0 1000 ())
           = Inr \<lparr>Data = [], Total = 0, Page = 1, Limit = 100, TotalPages = 0\<rparr>"
proof -
  have "fst (ListUsers (canned 0 []) (date 2024 6 15) 0 1000 ())
           = Inr \<lparr>Data = [], Total = 0, Page = 1, Limit = 100, TotalPages = 0\<rparr>"
    by (simp add: run_defs)
  with ListUsers_Inr [OF assms] show ?thesis
    by (auto simp: spec_page_def spec_limit_def)
qed

text \<open>Page -4 with limit 250 is reported as page 1 with limit 100.\<close>

theorem ListUsers_reports_normalized_witness:
  "ListUsers (canned 7 []) (date 2024 6 15) (- 4) 250 ()
     = (Inr \<lparr>Data = [], Total = 7, Page = 1, Limit = 100, TotalPages = 1\<rparr>, ())
   \<and> sint (1 :: go_int) = max (sint (- 4 :: go_int)) 1
   \<and> sint (100 :: go_int) = min (sint (250 :: go_int)) 100"
proof -
  have run: "ListUsers (canned 7 []) (date 2024 6 15) (- 4) 250 ()
     = (Inr \<lparr>Data = [], Total = 7, Page = 1, Limit = 100, TotalPages = 1\<rparr>, ())"
    by (simp add: run_defs)
  from ListUsers_reports_normalized [OF run] show ?thesis
    by (simp add: run)
qed

section \<open>Validation in \<open>CreateUser\<close> and \<open>UpdateUser\<close>\<close>

lemmas parse_defs =
  time_Parse_def isDigit_def is_digit_def atoi_def getnum_def digit_val_def daysIn_def
  isLeap_def parsePGDate_def

lemma skip_dash: "skip r ''-'' = Some v \<longleftrightarrow> r = CHR ''-'' # v"
  by (cases r) auto

lemma getnum_Some:
  "getnum s = Some (n, rest) \<longleftrightarrow>
     (\<exists>a b. s = a # b # rest \<and> is_digit a \<and> is_digit b \<and> n = digit_val a * 10 + digit_val b)"
proof (cases s)
  case Nil
  then show ?thesis by (simp add: getnum_def isDigit_def)
next
  case (Cons a s')
  then show ?thesis
    by (cases s') (auto simp: getnum_def isDigit_def)
qed

lemma year_field:
  "(\<not> (length v < 4 \<or> \<not> isDigit v 0) \<and> atoi (take 4 v) = Some y \<and> drop 4 v = r) \<longleftrightarrow>
     (\<exists>a b c d. v = a # b # c # d # r \<and> is_digit a \<and> is_digit b \<and> is_digit c \<and> is_digit d
        \<and> y = ((digit_val a * 10 + digit_val b) * 10 + digit_val c) * 10 + digit_val d)"
proof (cases v)
  case Nil
  then show ?thesis by simp
next
  case v1: (Cons a v1)
  show ?thesis
  proof (cases v1)
    case Nil
    with v1 show ?thesis by simp
  next
    case v2: (Cons b v2)
    show ?thesis
    proof (cases v2)
      case Nil
      with v1 v2 show ?thesis by simp
    next
      case v3: (Cons c v3)
      show ?thesis
      proof (cases v3)
        case Nil
        with v1 v2 v3 show ?thesis by simp
      next
        case (Cons d v4)
        with v1 v2 v3 show ?thesis
          by (auto simp: atoi_def isDigit_def)
      qed
    qed
  qed
qed

text \<open>
  What parses: exactly the ten-byte strings of four digits, \<^verbatim>\<open>-\<close>, two digits,
  \<^verbatim>\<open>-\<close>, two digits, whose month is in 1..12 and whose day exists in that month of
  that year.
\<close>

lemma time_Parse_Some_iff:
  "time_Parse v = Some t \<longleftrightarrow>
     (\<exists>y1 y2 y3 y4 m1 m2 d1 d2.
        v = [y1, y2, y3, y4, CHR ''-'', m1, m2, CHR ''-'', d1, d2]
      \<and> is_digit y1 \<and> is_digit y2 \<and> is_digit y3 \<and> is_digit y4
      \<and> is_digit m1 \<and> is_digit m2 \<and> is_digit d1 \<and> is_digit d2
      \<and> t = \<lparr>Year = ((digit_val y1 * 10 + digit_val y2) * 10 + digit_val y3) * 10 + digit_val y4,
             Month = digit_val m1 * 10 + digit_val m2,
             Day = digit_val d1 * 10 + digit_val d2\<rparr>
      \<and> 1 \<le> Month t \<and> Month t \<le> 12 \<and> 1 \<le> Day t \<and> Day t \<le> daysIn (Month t) (Year t))"
  (is "?lhs \<longleftrightarrow> ?rhs")
proof
  assume ?rhs
  then show ?lhs
    by (auto simp: time_Parse_def isDigit_def atoi_def getnum_def)
next
  assume p: ?lhs
  then have a: "\<not> (length v < 4 \<or> \<not> isDigit v 0)"
    by (auto simp: time_Parse_def split: if_splits)
  with p obtain y where y: "atoi (take 4 v) = Some y"
    by (auto simp: time_Parse_def split: if_splits option.splits)
  with p a obtain v1 where v1: "skip (drop 4 v) ''-'' = Some v1"
    by (auto simp: time_Parse_def split: if_splits option.splits)
  with p a y obtain m v2 where m: "getnum v1 = Some (m, v2)"
    by (auto simp: time_Parse_def split: if_splits option.splits)
  with p a y v1 have mr: "1 \<le> m" "m \<le> 12"
    by (auto simp: time_Parse_def split: if_splits option.splits)
  with p a y v1 m obtain v3 where v3: "skip v2 ''-'' = Some v3"
    by (auto simp: time_Parse_def split: if_splits option.splits)
  with p a y v1 m mr obtain d v4 where d: "getnum v3 = Some (d, v4)"
    by (auto simp: time_Parse_def split: if_splits option.splits)
  with p a y v1 m mr v3 have r: "v4 = []" "1 \<le> d" "d \<le> daysIn m y"
      and t: "t = \<lparr>Year = y, Month = m, Day = d\<rparr>"
    by (auto simp: time_Parse_def split: if_splits option.splits)
  from a y obtain y1 y2 y3 y4 where
    v: "v = y1 # y2 # y3 # y4 # drop 4 v"
    and yd: "is_digit y1" "is_digit y2" "is_digit y3" "is_digit y4"
    and yv: "y = ((digit_val y1 * 10 + digit_val y2) * 10 + digit_val y3) * 10 + digit_val y4"
    using year_field [of v y "drop 4 v"] by auto
  from v1 have r1: "drop 4 v = CHR ''-'' # v1"
    by (simp add: skip_dash)
  from m obtain m1 m2 where
    r2: "v1 = m1 # m2 # v2" and md: "is_digit m1" "is_digit m2"
    and mv: "m = digit_val m1 * 10 + digit_val m2"
    by (auto simp: getnum_Some)
  from v3 have r3: "v2 = CHR ''-'' # v3"
    by (simp add: skip_dash)
  from d obtain d1 d2 where
    r4: "v3 = d1 # d2 # v4" and dd: "is_digit d1" "is_digit d2"
    and dv: "d = digit_val d1 * 10 + digit_val d2"
    by (auto simp: getnum_Some)
  have "v = [y1, y2, y3, y4, CHR ''-'', m1, m2, CHR ''-'', d1, d2]"
    using v r1 r2 r3 r4 r(1) by simp
  with yd md dd t yv mv dv mr r show ?rhs
    by auto
qed

lemma time_Parse_1990_01_01: "time_Parse ''1990-01-01'' = Some (date 1990 1 1)"
  by (simp add: parse_defs date_def)

lemma time_Parse_not_a_date: "time_Parse ''not-a-date'' = None"
  by (simp add: parse_defs)

lemma time_Parse_2023_02_29: "time_Parse ''2023-02-29'' = None"
  by (simp add: parse_defs)

lemma time_Parse_2024_06_16: "time_Parse ''2024-06-16'' = Some (date 2024 6 16)"
  by (simp add: parse_defs date_def)

text \<open>Formatting writes the layout that parsing reads.\<close>

lemma time_Format_2024_02_09: "time_Format (date 2024 2 9) = ''2024-02-09''"
  by code_simp

lemma time_Format_zero_time: "time_Format (parsePGDate ''not-a-date'') = ''0001-01-01''"
  by code_simp

lemma time_Parse_time_Format_2024_02_29:
  "time_Parse (time_Format (date 2024 2 29)) = Some (date 2024 2 29)"
  by code_simp

lemma CreateUser_cases:
  "CreateUser repo name dob s =
     (if name = [] then (Inl (ValidationError ''name cannot be empty''), s)
      else if time_Parse dob = None
        then (Inl (ValidationError ''invalid date format, use YYYY-MM-DD''), s)
      else from_repo (Create repo name dob s))"
  by (simp add: CreateUser_def)

lemma from_repo_simps:
  "from_repo (Inl e, s) = (Inl (RepoError e), s)"
  "from_repo (Inr x, s) = (Inr x, s)"
  by (simp_all add: from_repo_def)

lemma from_repo_not_validation: "fst (from_repo r) \<noteq> Inl (ValidationError msg)"
  by (cases r; cases "fst r") (auto simp: from_repo_def)

text \<open>
  C4. \<open>CreateUser\<close> fails with a validation error exactly when the name is empty or the
  date string does not parse in the layout YYYY-MM-DD. For every other input it returns
  what the repository's \<open>Create\<close> returns for the same name and date string: its user,
  or its error as it is. An empty name with \<open>1990-01-01\<close>, and \<open>Alice\<close> with
  \<open>not-a-date\<close>, fail with a validation error.
\<close>

theorem CreateUser_validation:
  "((\<exists>msg. fst (CreateUser repo name dob s) = Inl (ValidationError msg))
      \<longleftrightarrow> (name = [] \<or> time_Parse dob = None))
   \<and> (name \<noteq> [] \<longrightarrow> time_Parse dob \<noteq> None \<longrightarrow>
        (\<forall>u s1. Create repo name dob s = (Inr u, s1)
           \<longrightarrow> CreateUser repo name dob s = (Inr u, s1))
      \<and> (\<forall>e s1. Create repo name dob s = (Inl e, s1)
           \<longrightarrow> CreateUser repo name dob s = (Inl (RepoError e), s1)))
   \<and> fst (CreateUser repo [] ''1990-01-01'' s) = Inl (ValidationError ''name cannot be empty'')
   \<and> fst (CreateUser repo ''Alice'' ''not-a-date'' s)
        = Inl (ValidationError ''invalid date format, use YYYY-MM-DD'')"
proof (intro conjI impI allI)
  show "(\<exists>msg. fst (CreateUser repo name dob s) = Inl (ValidationError msg))
      \<longleftrightarrow> (name = [] \<or> time_Parse dob = None)"
    by (auto simp: CreateUser_def from_repo_not_validation)
next
  fix u s1
  assume "name \<noteq> []" "time_Parse dob \<noteq> None" "Create repo name dob s = (Inr u, s1)"
  then show "CreateUser repo name dob s = (Inr u, s1)"
    by (simp add: CreateUser_def from_repo_simps)
next
  fix e s1
  assume "name \<noteq> []" "time_Parse dob \<noteq> None" "Create repo name dob s = (Inl e, s1)"
  then show "CreateUser repo name dob s = (Inl (RepoError e), s1)"
    by (simp add: CreateUser_def from_repo_simps)
next
  show "fst (CreateUser repo [] ''1990-01-01'' s) = Inl (ValidationError ''name cannot be empty'')"
    by (simp add: CreateUser_def)
next
  show "fst (CreateUser repo ''Alice'' ''not-a-date'' s)
        = Inl (ValidationError ''invalid date format, use YYYY-MM-DD'')"
    by (simp add: CreateUser_def time_Parse_not_a_date)
qed

text \<open>\<open>Alice\<close>, born 1990-01-01, is handed to the repository, and its answer is returned.\<close>

theorem CreateUser_validation_witness:
  "CreateUser (traced (canned 0 [])) ''Alice'' ''1990-01-01'' ((), [])
     = (Inr \<lparr>User.ID = 1, Name = ''Alice'', Dob = date 1990 1 1\<rparr>, (),
        [CreateCall ''Alice'' ''1990-01-01''])"
proof -
  have c: "Create (traced (canned 0 [])) ''Alice'' ''1990-01-01'' ((), [])
             = (Inr \<lparr>User.ID = 1, Name = ''Alice'', Dob = date 1990 1 1\<rparr>, (),
                [CreateCall ''Alice'' ''1990-01-01''])"
    by (simp add: traced_def canned_def journal_def parsePGDate_def time_Parse_1990_01_01)
  have n: "''Alice'' \<noteq> []" and d: "time_Parse ''1990-01-01'' \<noteq> None"
    by (simp_all add: time_Parse_1990_01_01)
  from CreateUser_validation [of "traced (canned 0 [])" "''Alice''" "''1990-01-01''" "((), [])"]
       n d c
  show ?thesis
    by blast
qed

lemma traced_Create:
  "Create (traced repo) name dob (s, log)
     = (fst (Create repo name dob s), snd (Create repo name dob s), log @ [CreateCall name dob])"
  by (simp add: traced_def journal_def)

lemma traced_Update:
  "Update (traced repo) uid name dob (s, log)
     = (fst (Update repo uid name dob s), snd (Update repo uid name dob s),
        log @ [UpdateCall uid name dob])"
  by (simp add: traced_def journal_def)

lemma snd_from_repo: "snd (from_repo r) = snd r"
  by (cases r; cases "fst r") (auto simp: from_repo_def)

lemma UpdateUser_cases:
  "UpdateUser repo uid name dob s =
     (if name = [] then (Inl (ValidationError ''name cannot be empty''), s)
      else if time_Parse dob = None
        then (Inl (ValidationError ''invalid date format, use YYYY-MM-DD''), s)
      else from_repo (Update repo uid name dob s))"
  by (simp add: UpdateUser_def)

lemma CreateUser_journal:
  "snd (snd (CreateUser (traced repo) name dob (s, log)))
     = (if name = [] \<or> time_Parse dob = None then log else log @ [CreateCall name dob])"
  by (simp add: CreateUser_cases snd_from_repo traced_Create)

lemma UpdateUser_journal:
  "snd (snd (UpdateUser (traced repo) uid name dob (s, log)))
     = (if name = [] \<or> time_Parse dob = None then log else log @ [UpdateCall uid name dob])"
  by (simp add: UpdateUser_cases snd_from_repo traced_Update)

text \<open>
  C5. When the name is empty or the date string does not parse, \<open>CreateUser\<close> and
  \<open>UpdateUser\<close> return a validation error and leave the store as it was: the journal of
  the repository records no call. Every date string that a \<open>Create\<close> or \<open>Update\<close> call
  of the repository receives from the service parses.
\<close>

theorem validation_before_gateway:
  "(name = [] \<or> time_Parse dob = None \<longrightarrow>
       (\<exists>msg. CreateUser repo name dob s = (Inl (ValidationError msg), s))
     \<and> (\<exists>msg. UpdateUser repo uid name dob s = (Inl (ValidationError msg), s))
     \<and> snd (snd (CreateUser (traced repo) name dob (s, log))) = log
     \<and> snd (snd (UpdateUser (traced repo) uid name dob (s, log))) = log)
   \<and> (\<forall>n d. CreateCall n d \<in> set (snd (snd (CreateUser (traced repo) name dob (s, []))))
         \<longrightarrow> time_Parse d \<noteq> None)
   \<and> (\<forall>i n d. UpdateCall i n d \<in> set (snd (snd (UpdateUser (traced repo) uid name dob (s, []))))
         \<longrightarrow> time_Parse d \<noteq> None)"
proof (intro conjI impI allI)
  assume "name = [] \<or> time_Parse dob = None"
  then show "\<exists>msg. CreateUser repo name dob s = (Inl (ValidationError msg), s)"
    by (auto simp: CreateUser_cases)
next
  assume "name = [] \<or> time_Parse dob = None"
  then show "\<exists>msg. UpdateUser repo uid name dob s = (Inl (ValidationError msg), s)"
    by (auto simp: UpdateUser_cases)
next
  assume "name = [] \<or> time_Parse dob = None"
  then show "snd (snd (CreateUser (traced repo) name dob (s, log))) = log"
    by (simp add: CreateUser_journal)
next
  assume "name = [] \<or> time_Parse dob = None"
  then show "snd (snd (UpdateUser (traced repo) uid name dob (s, log))) = log"
    by (simp add: UpdateUser_journal)
next
  fix n d
  assume "CreateCall n d \<in> set (snd (snd (CreateUser (traced repo) name dob (s, []))))"
  then show "time_Parse d \<noteq> None"
    by (auto simp: CreateUser_journal split: if_splits)
next
  fix i n d
  assume "UpdateCall i n d \<in> set (snd (snd (UpdateUser (traced repo) uid name dob (s, []))))"
  then show "time_Parse d \<noteq> None"
    by (auto simp: UpdateUser_journal split: if_splits)
qed

text \<open>Month 13 does not parse; neither operation calls the repository.\<close>

theorem validation_before_gateway_witness:
  "time_Parse ''1990-13-01'' = None
   \<and> CreateUser (canned 0 []) ''Alice'' ''1990-13-01'' ()
       = (Inl (ValidationError ''invalid date format, use YYYY-MM-DD''), ())
   \<and> snd (snd (CreateUser (traced (canned 0 [])) ''Alice'' ''1990-13-01'' ((), []))) = []
   \<and> snd (snd (UpdateUser (traced (canned 0 [])) 7 ''Alice'' ''1990-13-01'' ((), []))) = []"
proof -
  have p: "time_Parse ''1990-13-01'' = None"
    by (simp add: parse_defs)
  from validation_before_gateway
         [where name = "''Alice''" and dob = "''1990-13-01''" and repo = "canned 0 []"
            and s = "()" and uid = 7 and log = "[]"] p
  have "(\<exists>msg. CreateUser (canned 0 []) ''Alice'' ''1990-13-01'' () = (Inl (ValidationError msg), ()))
      \<and> snd (snd (CreateUser (traced (canned 0 [])) ''Alice'' ''1990-13-01'' ((), []))) = []
      \<and> snd (snd (UpdateUser (traced (canned 0 [])) 7 ''Alice'' ''1990-13-01'' ((), []))) = []"
    by blast
  then show ?thesis
    by (auto simp: p CreateUser_cases)
qed

text \<open>
  C6. \<open>UpdateUser\<close> rejects a name and date string with a validation error of a given
  message exactly when \<open>CreateUser\<close> rejects them with that message. When validation
  passes, it calls the repository's \<open>Update\<close> with the identifier, name and date string
  it was given and returns its answer: the user, or the error as it is; for an identifier
  the canned repository does not have, that error is \<open>NotFoundError\<close>.
\<close>

theorem UpdateUser_validation_as_CreateUser:
  "(fst (UpdateUser repo uid name dob s) = Inl (ValidationError msg)
      \<longleftrightarrow> fst (CreateUser repo' name dob s') = Inl (ValidationError msg))
   \<and> (name \<noteq> [] \<longrightarrow> time_Parse dob \<noteq> None \<longrightarrow>
        snd (snd (UpdateUser (traced repo) uid name dob (s, log))) = log @ [UpdateCall uid name dob]
      \<and> (\<forall>u s1. Update repo uid name dob s = (Inr u, s1)
           \<longrightarrow> UpdateUser repo uid name dob s = (Inr u, s1))
      \<and> (\<forall>e s1. Update repo uid name dob s = (Inl e, s1)
           \<longrightarrow> UpdateUser repo uid name dob s = (Inl (RepoError e), s1)))
   \<and> UpdateUser (canned 0 []) 7 ''Bob'' ''1990-01-01'' () = (Inl (RepoError NotFoundError), ())"
proof (intro conjI impI allI)
  show "fst (UpdateUser repo uid name dob s) = Inl (ValidationError msg)
      \<longleftrightarrow> fst (CreateUser repo' name dob s') = Inl (ValidationError msg)"
    by (simp add: UpdateUser_cases CreateUser_cases from_repo_not_validation)
next
  assume "name \<noteq> []" "time_Parse dob \<noteq> None"
  then show "snd (snd (UpdateUser (traced repo) uid name dob (s, log))) = log @ [UpdateCall uid name dob]"
    by (simp add: UpdateUser_journal)
next
  fix u s1
  assume "name \<noteq> []" "time_Parse dob \<noteq> None" "Update repo uid name dob s = (Inr u, s1)"
  then show "UpdateUser repo uid name dob s = (Inr u, s1)"
    by (simp add: UpdateUser_cases from_repo_simps)
next
  fix e s1
  assume "name \<noteq> []" "time_Parse dob \<noteq> None" "Update repo uid name dob s = (Inl e, s1)"
  then show "UpdateUser repo uid name dob s = (Inl (RepoError e), s1)"
    by (simp add: UpdateUser_cases from_repo_simps)
next
  show "UpdateUser (canned 0 []) 7 ''Bob'' ''1990-01-01'' () = (Inl (RepoError NotFoundError), ())"
    by (simp add: UpdateUser_cases time_Parse_1990_01_01 canned_def from_repo_simps)
qed

text \<open>User 7 exists and is renamed; an empty name is rejected by both operations alike.\<close>

theorem UpdateUser_validation_as_CreateUser_witness:
  "UpdateUser (canned 1 [\<lparr>User.ID = 7, Name = ''Bob'', Dob = date 1990 1 1\<rparr>])
       7 ''Rob'' ''1990-01-01'' ()
     = (Inr \<lparr>User.ID = 7, Name = ''Rob'', Dob = date 1990 1 1\<rparr>, ())
   \<and> snd (snd (UpdateUser (traced (canned 1 [\<lparr>User.ID = 7, Name = ''Bob'', Dob = date 1990 1 1\<rparr>]))
                  7 ''Rob'' ''1990-01-01'' ((), [])))
       = [UpdateCall 7 ''Rob'' ''1990-01-01'']
   \<and> fst (UpdateUser (canned 0 []) 7 [] ''1990-01-01'' ())
       = Inl (ValidationError ''name cannot be empty'')"
proof -
  let ?repo = "canned 1 [\<lparr>User.ID = 7, Name = ''Bob'', Dob = date 1990 1 1\<rparr>]"
  have u: "Update ?repo 7 ''Rob'' ''1990-01-01'' ()
             = (Inr \<lparr>User.ID = 7, Name = ''Rob'', Dob = date 1990 1 1\<rparr>, ())"
    by (simp add: canned_def parsePGDate_def time_Parse_1990_01_01)
  have n: "''Rob'' \<noteq> []" and d: "time_Parse ''1990-01-01'' \<noteq> None"
    by (simp_all add: time_Parse_1990_01_01)
  from UpdateUser_validation_as_CreateUser
         [where repo = ?repo and uid = 7 and name = "''Rob''" and dob = "''1990-01-01''"
            and s = "()" and log = "[]" and msg = "[]" and repo' = ?repo and s' = "()"] n d u
  have 1: "UpdateUser ?repo 7 ''Rob'' ''1990-01-01'' ()
             = (Inr \<lparr>User.ID = 7, Name = ''Rob'', Dob = date 1990 1 1\<rparr>, ())
         \<and> snd (snd (UpdateUser (traced ?repo) 7 ''Rob'' ''1990-01-01'' ((), [])))
             = [UpdateCall 7 ''Rob'' ''1990-01-01'']"
    by simp
  have 2: "fst (CreateUser (canned 0 []) [] ''1990-01-01'' ())
       = Inl (ValidationError ''name cannot be empty'')"
    by (simp add: CreateUser_cases)
  from UpdateUser_validation_as_CreateUser
         [where repo = "canned 0 []" and uid = 7 and name = "[]" and dob = "''1990-01-01''"
            and s = "()" and log = "[]" and msg = "''name cannot be empty''"
            and repo' = "canned 0 []" and s' = "()"] 2
  have 3: "fst (UpdateUser (canned 0 []) 7 [] ''1990-01-01'' ())
       = Inl (ValidationError ''name cannot be empty'')"
    by simp
  from 1 3 show ?thesis
    by blast
qed

subsection \<open>Validation of the name in the handler\<close>

lemma RuneCountInString_Nil: "RuneCountInString [] = 0"
  by (simp add: RuneCountInString.simps)

lemma RuneCountInString_pos: "s \<noteq> [] \<Longrightarrow> 0 < RuneCountInString s"
  by (subst RuneCountInString.simps) simp

lemma validate_CreateUserRequest_iff:
  "validate_CreateUserRequest req \<longleftrightarrow>
     2 \<le> RuneCountInString (CreateUserRequest.Name req)
     \<and> RuneCountInString (CreateUserRequest.Name req) \<le> 100
     \<and> CreateUserRequest.DOB req \<noteq> []"
  by (auto simp: validate_CreateUserRequest_def RuneCountInString_Nil)

lemma validate_UpdateUserRequest_iff:
  "validate_UpdateUserRequest req \<longleftrightarrow>
     2 \<le> RuneCountInString (UpdateUserRequest.Name req)
     \<and> RuneCountInString (UpdateUserRequest.Name req) \<le> 100
     \<and> UpdateUserRequest.DOB req \<noteq> []"
  by (auto simp: validate_UpdateUserRequest_def RuneCountInString_Nil)

lemma time_Parse_Nil: "time_Parse [] = None"
  by (simp add: time_Parse_def)

lemma snd_UserHandler_CreateUser:
  "snd (UserHandler_CreateUser repo body s) =
     (case body of
        None \<Rightarrow> s
      | Some req \<Rightarrow>
          if validate_CreateUserRequest req
          then snd (CreateUser repo (CreateUserRequest.Name req) (CreateUserRequest.DOB req) s)
          else s)"
proof (cases body)
  case None
  then show ?thesis by (simp add: UserHandler_CreateUser_def)
next
  case (Some req)
  obtain r s1 where "CreateUser repo (CreateUserRequest.Name req) (CreateUserRequest.DOB req) s = (r, s1)"
    by (cases "CreateUser repo (CreateUserRequest.Name req) (CreateUserRequest.DOB req) s")
  with Some show ?thesis
    by (cases r) (simp_all add: UserHandler_CreateUser_def)
qed

lemma snd_UserHandler_UpdateUser:
  "snd (UserHandler_UpdateUser repo parsed_id body s) =
     (case parsed_id of
        None \<Rightarrow> s
      | Some uid \<Rightarrow>
         (case body of
            None \<Rightarrow> s
          | Some req \<Rightarrow>
              if validate_UpdateUserRequest req
              then snd (UpdateUser repo (to_int32 uid) (UpdateUserRequest.Name req)
                          (UpdateUserRequest.DOB req) s)
              else s))"
proof (cases parsed_id)
  case None
  then show ?thesis by (simp add: UserHandler_UpdateUser_def)
next
  case i: (Some uid)
  show ?thesis
  proof (cases body)
    case None
    with i show ?thesis by (simp add: UserHandler_UpdateUser_def)
  next
    case (Some req)
    obtain r s1 where
      "UpdateUser repo (to_int32 uid) (UpdateUserRequest.Name req) (UpdateUserRequest.DOB req) s = (r, s1)"
      by (cases "UpdateUser repo (to_int32 uid) (UpdateUserRequest.Name req) (UpdateUserRequest.DOB req) s")
    with i Some show ?thesis
      by (cases r) (simp_all add: UserHandler_UpdateUser_def)
  qed
qed

lemma UserHandler_CreateUser_journal:
  "snd (snd (UserHandler_CreateUser (traced repo) body (s, log))) =
     (case body of
        None \<Rightarrow> log
      | Some req \<Rightarrow>
          if validate_CreateUserRequest req \<and> time_Parse (CreateUserRequest.DOB req) \<noteq> None
          then log @ [CreateCall (CreateUserRequest.Name req) (CreateUserRequest.DOB req)]
          else log)"
  by (auto simp: snd_UserHandler_CreateUser CreateUser_journal validate_CreateUserRequest_iff
        RuneCountInString_Nil split: option.splits)

lemma UserHandler_UpdateUser_journal:
  "snd (snd (UserHandler_UpdateUser (traced repo) parsed_id body (s, log))) =
     (case parsed_id of
        None \<Rightarrow> log
      | Some uid \<Rightarrow>
         (case body of
            None \<Rightarrow> log
          | Some req \<Rightarrow>
              if validate_UpdateUserRequest req \<and> time_Parse (UpdateUserRequest.DOB req) \<noteq> None
              then log @ [UpdateCall (to_int32 uid) (UpdateUserRequest.Name req)
                            (UpdateUserRequest.DOB req)]
              else log))"
  by (auto simp: snd_UserHandler_UpdateUser UpdateUser_journal validate_UpdateUserRequest_iff
        RuneCountInString_Nil split: option.splits)

text \<open>
  C7. Every name that reaches the repository through the handler's \<open>CreateUser\<close> or
  \<open>UpdateUser\<close> is not empty and has 2 to 100 characters. A name of fewer than 2 or of
  more than 100 characters is rejected by validation: the answer is status 400 and the
  store is left as it was, the repository not called. A name of 2 to 100 characters with
  a date string that parses in the layout YYYY-MM-DD is handed to the repository, and
  when the repository returns the user the answer is status 201, for an update 200,
  with that user.
\<close>

theorem admitted_names_have_2_to_100_characters:
  "(\<forall>n d. CreateCall n d
            \<in> set (snd (snd (UserHandler_CreateUser (traced repo) body (s, []))))
       \<longrightarrow> n \<noteq> [] \<and> 2 \<le> RuneCountInString n \<and> RuneCountInString n \<le> 100)
   \<and> (\<forall>i n d. UpdateCall i n d
            \<in> set (snd (snd (UserHandler_UpdateUser (traced repo) parsed_id ubody (s, []))))
       \<longrightarrow> n \<noteq> [] \<and> 2 \<le> RuneCountInString n \<and> RuneCountInString n \<le> 100)
   \<and> (RuneCountInString name < 2 \<or> 100 < RuneCountInString name \<longrightarrow>
         UserHandler_CreateUser repo (Some \<lparr>CreateUserRequest.Name = name, DOB = dob\<rparr>) s
           = (\<lparr>StatusCode = 400, JSON = ValidationFailedJSON\<rparr>, s)
       \<and> UserHandler_UpdateUser repo (Some uid) (Some \<lparr>UpdateUserRequest.Name = name, DOB = dob\<rparr>) s
           = (\<lparr>StatusCode = 400, JSON = ValidationFailedJSON\<rparr>, s))
   \<and> (2 \<le> RuneCountInString name \<and> RuneCountInString name \<le> 100 \<and> time_Parse dob \<noteq> None \<longrightarrow>
         snd (snd (UserHandler_CreateUser (traced repo)
                     (Some \<lparr>CreateUserRequest.Name = name, DOB = dob\<rparr>) (s, log)))
           = log @ [CreateCall name dob]
       \<and> snd (snd (UserHandler_UpdateUser (traced repo) (Some uid)
                     (Some \<lparr>UpdateUserRequest.Name = name, DOB = dob\<rparr>) (s, log)))
           = log @ [UpdateCall (to_int32 uid) name dob]
       \<and> (\<forall>u s1. Create repo name dob s = (Inr u, s1) \<longrightarrow>
             UserHandler_CreateUser repo (Some \<lparr>CreateUserRequest.Name = name, DOB = dob\<rparr>) s
               = (\<lparr>StatusCode = 201,
                    JSON = UserJSON \<lparr>UserResponse.ID = User.ID u, Name = User.Name u,
                                     DOB = time_Format (Dob u), Age = None\<rparr>\<rparr>, s1))
       \<and> (\<forall>u s1. Update repo (to_int32 uid) name dob s = (Inr u, s1) \<longrightarrow>
             UserHandler_UpdateUser repo (Some uid)
                 (Some \<lparr>UpdateUserRequest.Name = name, DOB = dob\<rparr>) s
               = (\<lparr>StatusCode = 200,
                    JSON = UserJSON \<lparr>UserResponse.ID = User.ID u, Name = User.Name u,
                                     DOB = time_Format (Dob u), Age = None\<rparr>\<rparr>, s1)))"
proof (intro conjI impI allI)
  fix n d
  assume "CreateCall n d \<in> set (snd (snd (UserHandler_CreateUser (traced repo) body (s, []))))"
  then have "2 \<le> RuneCountInString n \<and> RuneCountInString n \<le> 100"
    by (auto simp: UserHandler_CreateUser_journal validate_CreateUserRequest_iff
          split: option.splits if_splits)
  then show "n \<noteq> []" "2 \<le> RuneCountInString n" "RuneCountInString n \<le> 100"
    by (auto simp: RuneCountInString_Nil)
next
  fix i n d
  assume "UpdateCall i n d
            \<in> set (snd (snd (UserHandler_UpdateUser (traced repo) parsed_id ubody (s, []))))"
  then have "2 \<le> RuneCountInString n \<and> RuneCountInString n \<le> 100"
    by (auto simp: UserHandler_UpdateUser_journal validate_UpdateUserRequest_iff
          split: option.splits if_splits)
  then show "n \<noteq> []" "2 \<le> RuneCountInString n" "RuneCountInString n \<le> 100"
    by (auto simp: RuneCountInString_Nil)
next
  assume "RuneCountInString name < 2 \<or> 100 < RuneCountInString name"
  then show "UserHandler_CreateUser repo (Some \<lparr>CreateUserRequest.Name = name, DOB = dob\<rparr>) s
           = (\<lparr>StatusCode = 400, JSON = ValidationFailedJSON\<rparr>, s)"
    and "UserHandler_UpdateUser repo (Some uid) (Some \<lparr>UpdateUserRequest.Name = name, DOB = dob\<rparr>) s
           = (\<lparr>StatusCode = 400, JSON = ValidationFailedJSON\<rparr>, s)"
    by (auto simp: UserHandler_CreateUser_def UserHandler_UpdateUser_def
          validate_CreateUserRequest_iff validate_UpdateUserRequest_iff)
next
  assume a: "2 \<le> RuneCountInString name \<and> RuneCountInString name \<le> 100 \<and> time_Parse dob \<noteq> None"
  then have d: "dob \<noteq> []" and n: "name \<noteq> []"
    by (auto simp: time_Parse_Nil RuneCountInString_Nil)
  from a d show "snd (snd (UserHandler_CreateUser (traced repo)
                     (Some \<lparr>CreateUserRequest.Name = name, DOB = dob\<rparr>) (s, log)))
           = log @ [CreateCall name dob]"
    by (simp add: UserHandler_CreateUser_journal validate_CreateUserRequest_iff)
  from a d show "snd (snd (UserHandler_UpdateUser (traced repo) (Some uid)
                     (Some \<lparr>UpdateUserRequest.Name = name, DOB = dob\<rparr>) (s, log)))
           = log @ [UpdateCall (to_int32 uid) name dob]"
    by (simp add: UserHandler_UpdateUser_journal validate_UpdateUserRequest_iff)
  fix u s1
  {
    assume "Create repo name dob s = (Inr u, s1)"
    with a d n show "UserHandler_CreateUser repo (Some \<lparr>CreateUserRequest.Name = name, DOB = dob\<rparr>) s
               = (\<lparr>StatusCode = 201,
                    JSON = UserJSON \<lparr>UserResponse.ID = User.ID u, Name = User.Name u,
                                     DOB = time_Format (Dob u), Age = None\<rparr>\<rparr>, s1)"
      by (simp add: UserHandler_CreateUser_def validate_CreateUserRequest_iff CreateUser_cases
            from_repo_simps)
  }
  {
    assume "Update repo (to_int32 uid) name dob s = (Inr u, s1)"
    with a d n show "UserHandler_UpdateUser repo (Some uid)
                 (Some \<lparr>UpdateUserRequest.Name = name, DOB = dob\<rparr>) s
               = (\<lparr>StatusCode = 200,
                    JSON = UserJSON \<lparr>UserResponse.ID = User.ID u, Name = User.Name u,
                                     DOB = time_Format (Dob u), Age = None\<rparr>\<rparr>, s1)"
      by (simp add: UserHandler_UpdateUser_def validate_UpdateUserRequest_iff UpdateUser_cases
            from_repo_simps)
  }
qed

lemma RuneCountInString_examples:
  "RuneCountInString ''Al'' = 2"
  "RuneCountInString ''A'' = 1"
  "RuneCountInString (replicate 101 (CHR ''x'')) = 101"
  "RuneCountInString [CHR 0xC3, CHR 0xA9] = 1"
  by code_simp+

lemma time_Format_1990_01_01: "time_Format (date 1990 1 1) = ''1990-01-01''"
  by code_simp

text \<open>
  A name of two characters is created; names of one character and of 101 characters are
  answered with status 400, and the journal of the repository stays empty.
\<close>

theorem admitted_names_have_2_to_100_characters_witness:
  "RuneCountInString ''Al'' = 2
   \<and> UserHandler_CreateUser (canned 0 [])
         (Some \<lparr>CreateUserRequest.Name = ''Al'', DOB = ''1990-01-01''\<rparr>) ()
       = (\<lparr>StatusCode = 201,
            JSON = UserJSON \<lparr>UserResponse.ID = 1, Name = ''Al'', DOB = ''1990-01-01'',
                             Age = None\<rparr>\<rparr>, ())
   \<and> snd (snd (UserHandler_CreateUser (traced (canned 0 []))
                 (Some \<lparr>CreateUserRequest.Name = ''Al'', DOB = ''1990-01-01''\<rparr>) ((), [])))
       = [CreateCall ''Al'' ''1990-01-01'']
   \<and> RuneCountInString ''A'' = 1
   \<and> UserHandler_CreateUser (traced (canned 0 []))
         (Some \<lparr>CreateUserRequest.Name = ''A'', DOB = ''1990-01-01''\<rparr>) ((), [])
       = (\<lparr>StatusCode = 400, JSON = ValidationFailedJSON\<rparr>, (), [])
   \<and> RuneCountInString (replicate 101 (CHR ''x'')) = 101
   \<and> UserHandler_UpdateUser
         (traced (canned 1 [\<lparr>User.ID = 7, Name = ''Bob'', Dob = date 1990 1 1\<rparr>])) (Some 7)
         (Some \<lparr>UpdateUserRequest.Name = replicate 101 (CHR ''x''), DOB = ''1990-01-01''\<rparr>)
         ((), [])
       = (\<lparr>StatusCode = 400, JSON = ValidationFailedJSON\<rparr>, (), [])"
proof -
  note rc = RuneCountInString_examples
  have c: "Create (canned 0 []) ''Al'' ''1990-01-01'' ()
             = (Inr \<lparr>User.ID = 1, Name = ''Al'', Dob = date 1990 1 1\<rparr>, ())"
    by (simp add: canned_def parsePGDate_def time_Parse_1990_01_01)
  have ok: "2 \<le> RuneCountInString ''Al'' \<and> RuneCountInString ''Al'' \<le> 100
            \<and> time_Parse ''1990-01-01'' \<noteq> None"
    by (simp add: rc time_Parse_1990_01_01)
  from admitted_names_have_2_to_100_characters
         [where repo = "canned 0 []" and s = "()" and name = "''Al''" and dob = "''1990-01-01''"
            and log = "[]" and uid = 7 and body = None and parsed_id = None and ubody = None]
       ok c
  have 1: "UserHandler_CreateUser (canned 0 [])
         (Some \<lparr>CreateUserRequest.Name = ''Al'', DOB = ''1990-01-01''\<rparr>) ()
       = (\<lparr>StatusCode = 201,
            JSON = UserJSON \<lparr>UserResponse.ID = 1, Name = ''Al'', DOB = ''1990-01-01'',
                             Age = None\<rparr>\<rparr>, ())
     \<and> snd (snd (UserHandler_CreateUser (traced (canned 0 []))
                 (Some \<lparr>CreateUserRequest.Name = ''Al'', DOB = ''1990-01-01''\<rparr>) ((), [])))
       = [CreateCall ''Al'' ''1990-01-01'']"
    by (simp add: time_Format_1990_01_01)
  have short: "RuneCountInString ''A'' < 2 \<or> 100 < RuneCountInString ''A''"
    by (simp add: rc)
  from admitted_names_have_2_to_100_characters
         [where repo = "traced (canned 0 [])" and s = "((), [])" and name = "''A''"
            and dob = "''1990-01-01''" and log = "[]" and uid = 7 and body = None
            and parsed_id = None and ubody = None]
       short
  have 2: "UserHandler_CreateUser (traced (canned 0 []))
         (Some \<lparr>CreateUserRequest.Name = ''A'', DOB = ''1990-01-01''\<rparr>) ((), [])
       = (\<lparr>StatusCode = 400, JSON = ValidationFailedJSON\<rparr>, (), [])"
    by simp
  have long: "RuneCountInString (replicate 101 (CHR ''x'')) < 2
              \<or> 100 < RuneCountInString (replicate 101 (CHR ''x''))"
    by (simp add: rc)
  from admitted_names_have_2_to_100_characters
         [where repo = "traced (canned 1 [\<lparr>User.ID = 7, Name = ''Bob'', Dob = date 1990 1 1\<rparr>])"
            and s = "((), [])" and name = "replicate 101 (CHR ''x'')"
            and dob = "''1990-01-01''" and log = "[]" and uid = 7 and body = None
            and parsed_id = None and ubody = None]
       long
  have 3: "UserHandler_UpdateUser
         (traced (canned 1 [\<lparr>User.ID = 7, Name = ''Bob'', Dob = date 1990 1 1\<rparr>])) (Some 7)
         (Some \<lparr>UpdateUserRequest.Name = replicate 101 (CHR ''x''), DOB = ''1990-01-01''\<rparr>)
         ((), [])
       = (\<lparr>StatusCode = 400, JSON = ValidationFailedJSON\<rparr>, (), [])"
    by simp
  from 1 2 3 rc show ?thesis
    by simp
qed

text \<open>
  C8. For a date of birth after the current date, \<open>CalculateAge\<close> is negative; and
  \<open>CreateUser\<close> hands a date string that parses to such a date to the repository, as it
  does any other that parses.
\<close>

theorem future_dob_negative_age:
  assumes "(Year now, Month now, Day now) < (Year dob, Month dob, Day dob)"
  shows "CalculateAge now dob < 0
       \<and> (name \<noteq> [] \<longrightarrow> time_Parse str = Some dob \<longrightarrow>
            snd (snd (CreateUser (traced repo) name str (s, log))) = log @ [CreateCall name str]
          \<and> (\<forall>u s1. Create repo name str s = (Inr u, s1)
                \<longrightarrow> CreateUser repo name str s = (Inr u, s1)))"
proof (intro conjI impI allI)
  from assms show "CalculateAge now dob < 0"
    by (auto simp: CalculateAge_def Let_def less_prod_def less_le)
next
  assume "name \<noteq> []" "time_Parse str = Some dob"
  then show "snd (snd (CreateUser (traced repo) name str (s, log))) = log @ [CreateCall name str]"
    by (simp add: CreateUser_journal)
next
  fix u s1
  assume "name \<noteq> []" "time_Parse str = Some dob" "Create repo name str s = (Inr u, s1)"
  then show "CreateUser repo name str s = (Inr u, s1)"
    by (simp add: CreateUser_cases from_repo_simps)
qed

text \<open>On 2024-06-15, a birth date of 2024-06-16 gives a negative age and is accepted.\<close>

theorem future_dob_negative_age_witness:
  "CalculateAge (date 2024 6 15) (date 2024 6 16) < 0
   \<and> time_Parse ''2024-06-16'' = Some (date 2024 6 16)
   \<and> snd (snd (CreateUser (traced (canned 0 [])) ''Eve'' ''2024-06-16'' ((), [])))
       = [CreateCall ''Eve'' ''2024-06-16'']"
proof -
  have a: "(Year (date 2024 6 15), Month (date 2024 6 15), Day (date 2024 6 15))
           < (Year (date 2024 6 16), Month (date 2024 6 16), Day (date 2024 6 16))"
    by (simp add: date_def less_prod_def)
  have n: "''Eve'' \<noteq> []"
    by simp
  from future_dob_negative_age
         [OF a, where name = "''Eve''" and str = "''2024-06-16''" and repo = "canned 0 []"
            and s = "()" and log = "[]"] n time_Parse_2024_06_16
  show ?thesis
    by simp
qed

end
